theory Spec2Isabelle
  imports Main
begin

section \<open>The master's request handlers (app/web\_framework/cluster\_master\_application.py)\<close>

text \<open>
  The handlers of the file are embedded as functions from the collaborators they call
  (the cluster master, the slave registry, the configuration, the URL builder) and the
  request to the ordered list of collaborator calls they make and the outcome the client
  sees. An exception that leaves a handler is the outcome \<open>Raised\<close>. A \<open>string\<close>
  holds the UTF-8 bytes of a Python \<open>str\<close>.
\<close>

subsection \<open>Values, errors and outcomes\<close>

datatype json =
    JNull
  | JBool bool
  | JInt int
  | JStr string
  | JList "json list"
  | JObj "(string \<times> json) list"

text \<open>
  The exceptions the handlers meet: \<open>ItemNotFoundError\<close> is the domain error of
  app.util.exceptions (with its message), the others are Python's own, and
  \<open>AuthenticationError\<close> is what the authentication gate raises.
\<close>

datatype error =
    ItemNotFoundError string
  | RuntimeError string
  | ValueError
  | TypeError
  | IndexError
  | AttributeError
  | AuthenticationError

text \<open>
  What a handler leaves for the client: \<open>self.write(response)\<close>,
  \<open>self._write_status(response, success, status_code)\<close> (the arguments of the call
  are kept as they are passed; an omitted argument is \<open>None\<close>), \<open>self.redirect(url)\<close>,
  a return without any write, or an exception.
\<close>

datatype outcome =
    Wrote json
  | WroteStatus "json option" "bool option" "nat option"
  | Redirect string
  | NoOutput
  | Raised error

subsection \<open>Collaborator objects\<close>

text \<open>A slave (worker node): \<open>ident\<close> is \<open>slave.id\<close>.\<close>

record Slave =
  ident :: int
  url :: string
  slave_api_representation :: json

record Atom =
  atom_api_representation :: json

text \<open>
  A subjob: \<open>atoms\<close> is the attribute \<open>subjob.atoms\<close>, the list of the subjob's
  atoms in their order, \<open>slave\<close> the worker the subjob is assigned to (\<open>None\<close> when
  there is none).
\<close>

record Subjob =
  subjob_api_representation :: json
  atoms :: "Atom list"
  slave :: "Slave option"

text \<open>
  A build: \<open>subjob\<close> is \<open>build.subjob(subjob_id)\<close>, which may raise, and
  \<open>all_subjobs\<close> the full ordered subjob collection.
\<close>

record Build =
  build_api_representation :: json
  subjob :: "int \<Rightarrow> error + Subjob"
  all_subjobs :: "Subjob list"

type_synonym dict = "(string \<times> json) list"

text \<open>
  The request: the headers, the query arguments (the last value of each name), the
  decoded JSON body and the uploaded files by form field name.
\<close>

record request =
  headers :: "(string \<times> string) list"
  query :: "string \<rightharpoonup> string"
  decoded_body :: dict
  files :: "(string \<times> string list) list"

text \<open>The collaborator calls a handler can make, with their arguments.\<close>

datatype call =
    GetConsoleOutput string string string string int "int option"
  | GetBuild int
  | GetSubjob int
  | GetBuilds "(int \<times> int option) option"
  | GetSubjobs "(int \<times> int option) option"
  | GetAtoms "(int \<times> int option) option"
  | HandleRequestForNewBuild dict
  | HandleRequestToUpdateBuild string dict
  | GetSlaveByUrl "json option"
  | GetSlaveById int
  | GetAllSlavesById
  | HandleSlaveStateUpdate int "json option"
  | UpdateSlaveLastHeartbeatTime int
  | SetShutdownModeOnSlaves "int list"
  | RecordEvent "json option" int int int
  | HandleResultReportedFromSlave "json option" int int string

text \<open>
  The collaborators, none of which is defined in this file: every method the handlers
  call is a field giving what the call returns (\<open>Inl\<close> when it raises);
  \<open>handle_slave_state_update\<close> returns the slave as the call leaves it.
  \<open>url_builder\<close> is \<open>UrlBuilder(address).url(*args)\<close>, \<open>results_directory\<close> is
  \<open>Configuration['results_directory']\<close>, and \<open>credential_valid\<close> is the check of the
  authentication gate. \<open>py_int\<close> is Python's \<open>int\<close> on a \<open>str\<close>: which characters
  it reads as decimal digits and as whitespace is a matter of the interpreter's Unicode
  tables, so the function is taken as it is given.
\<close>

record env =
  get_console_output ::
    "string \<Rightarrow> string \<Rightarrow> string \<Rightarrow> string \<Rightarrow> int \<Rightarrow> int option \<Rightarrow> error + json"
  get_build :: "int \<Rightarrow> error + Build"
  all_builds :: "Build list"
  handle_request_for_new_build :: "dict \<Rightarrow> error + bool \<times> json"
  handle_request_to_update_build :: "string \<Rightarrow> dict \<Rightarrow> error + bool \<times> json"
  set_shutdown_mode_on_slaves :: "int list \<Rightarrow> error + unit"
  handle_slave_state_update :: "Slave \<Rightarrow> json option \<Rightarrow> error + Slave"
  update_slave_last_heartbeat_time :: "Slave \<Rightarrow> error + unit"
  handle_result_reported_from_slave :: "json option \<Rightarrow> int \<Rightarrow> int \<Rightarrow> string \<Rightarrow> error + unit"
  get_slave_by_url :: "json option \<Rightarrow> error + Slave"
  get_slave_by_id :: "int \<Rightarrow> error + Slave"
  all_slaves_by_id :: "(int \<times> Slave) list"
  results_directory :: string
  url_builder :: "string \<Rightarrow> string list \<Rightarrow> string"
  credential_valid :: "request \<Rightarrow> bool"
  py_int :: "string \<Rightarrow> error + int"

type_synonym exec = "call list \<times> outcome"

subsection \<open>Python's \<open>str\<close> of an int, and \<open>urlencode\<close>\<close>

function str_nat :: "nat \<Rightarrow> string" where
  "str_nat n =
     (if n < 10 then [''0123456789'' ! n]
      else str_nat (n div 10) @ [''0123456789'' ! (n mod 10)])"
  by pat_completeness auto
termination
  by (relation "measure id") auto

declare str_nat.simps [simp del]

definition str_int :: "int \<Rightarrow> string" where
  "str_int i = (if i < 0 then CHR ''-'' # str_nat (nat (- i)) else str_nat (nat i))"

text \<open>
  \<open>urllib.parse.urlencode\<close> on a dict whose keys are the literals of the console
  handler and whose values are Python ints: the keys and the decimal text of an int hold
  unreserved characters only, which the quoting leaves as they are.
\<close>

fun urlencode :: "(string \<times> int) list \<Rightarrow> string" where
  "urlencode [] = []"
| "urlencode [(k, v)] = k @ ''='' @ str_int v"
| "urlencode ((k, v) # kv # rest) = k @ ''='' @ str_int v @ ''&'' @ urlencode (kv # rest)"

subsection \<open>\<open>_AtomConsoleHandler\<close>\<close>

text \<open>
  \<open>get\<close>: the two query arguments are read before the \<open>try\<close>; the local console
  output is written when the master has it; on ItemNotFoundError the subjob's slave is
  looked up and the request is redirected to it, or the caught error is raised again
  when the subjob has no slave.
\<close>

definition AtomConsoleHandler_fallback ::
  "env \<Rightarrow> error \<Rightarrow> string \<Rightarrow> string \<Rightarrow> string \<Rightarrow> int \<Rightarrow> int option \<Rightarrow> call list \<Rightarrow> exec" where
  "AtomConsoleHandler_fallback m e build_id subjob_id atom_id max_lines offset_line cs =
     (case py_int m build_id of
        Inl x \<Rightarrow> (cs, Raised x)
      | Inr b \<Rightarrow>
     (case get_build m b of
        Inl x \<Rightarrow> (cs @ [GetBuild b], Raised x)
      | Inr build \<Rightarrow>
     (case py_int m subjob_id of
        Inl x \<Rightarrow> (cs @ [GetBuild b], Raised x)
      | Inr s \<Rightarrow>
     (case subjob build s of
        Inl x \<Rightarrow> (cs @ [GetBuild b, GetSubjob s], Raised x)
      | Inr sj \<Rightarrow>
     (case slave sj of
        None \<Rightarrow> (cs @ [GetBuild b, GetSubjob s], Raised e)
      | Some w \<Rightarrow>
          (let slave_console_url =
                 url_builder m (url w)
                   [''build'', build_id, ''subjob'', subjob_id, ''atom'', atom_id, ''console''];
               query0 = [(''max_lines'', max_lines)];
               query1 = (case offset_line of
                           None \<Rightarrow> query0
                         | Some ol \<Rightarrow> query0 @ [(''offset_line'', ol)]);
               query_string = urlencode query1
           in (cs @ [GetBuild b, GetSubjob s],
               Redirect (slave_console_url @ ''?'' @ query_string))))))))"

definition console_max_lines :: "env \<Rightarrow> request \<Rightarrow> error + int" where
  "console_max_lines m req =
     (case query req ''max_lines'' of None \<Rightarrow> Inr 50 | Some v \<Rightarrow> py_int m v)"

definition console_offset_line :: "env \<Rightarrow> request \<Rightarrow> error + int option" where
  "console_offset_line m req =
     (case query req ''offset_line'' of
        None \<Rightarrow> Inr None
      | Some v \<Rightarrow> (case py_int m v of Inl x \<Rightarrow> Inl x | Inr ol \<Rightarrow> Inr (Some ol)))"

definition AtomConsoleHandler_get :: "env \<Rightarrow> request \<Rightarrow> string \<Rightarrow> string \<Rightarrow> string \<Rightarrow> exec" where
  "AtomConsoleHandler_get m req build_id subjob_id atom_id =
     (case console_max_lines m req of
        Inl x \<Rightarrow> ([], Raised x)
      | Inr max_lines \<Rightarrow>
     (case console_offset_line m req of
        Inl x \<Rightarrow> ([], Raised x)
      | Inr offset_line \<Rightarrow>
          (let cs = [GetConsoleOutput build_id subjob_id atom_id (results_directory m)
                       max_lines offset_line]
           in case get_console_output m build_id subjob_id atom_id (results_directory m)
                     max_lines offset_line of
                Inr response \<Rightarrow> (cs, Wrote response)
              | Inl (ItemNotFoundError msg) \<Rightarrow>
                  AtomConsoleHandler_fallback m (ItemNotFoundError msg)
                    build_id subjob_id atom_id max_lines offset_line cs
              | Inl x \<Rightarrow> (cs, Raised x))))"

subsection \<open>Python values: dict lookup, truth, indexing\<close>

definition dict_get :: "dict \<Rightarrow> string \<Rightarrow> json option" where
  "dict_get d k = map_of d k"

text \<open>\<open>d.get(k1, {}).get(k2)\<close>: a value under \<open>k1\<close> that is no dict has no \<open>get\<close>.\<close>

definition dict_get2 :: "dict \<Rightarrow> string \<Rightarrow> string \<Rightarrow> error + json option" where
  "dict_get2 d k1 k2 =
     (case dict_get d k1 of
        None \<Rightarrow> Inr None
      | Some (JObj inner) \<Rightarrow> Inr (dict_get inner k2)
      | Some _ \<Rightarrow> Inl AttributeError)"

fun truthy :: "json option \<Rightarrow> bool" where
  "truthy None = False"
| "truthy (Some JNull) = False"
| "truthy (Some (JBool b)) = b"
| "truthy (Some (JInt i)) = (i \<noteq> 0)"
| "truthy (Some (JStr s)) = (s \<noteq> [])"
| "truthy (Some (JList l)) = (l \<noteq> [])"
| "truthy (Some (JObj d)) = (d \<noteq> [])"

text \<open>\<open>int(v)\<close> on a decoded JSON value.\<close>

fun json_int :: "env \<Rightarrow> json \<Rightarrow> error + int" where
  "json_int m (JInt i) = Inr i"
| "json_int m (JBool b) = Inr (if b then 1 else 0)"
| "json_int m (JStr s) = py_int m s"
| "json_int m _ = Inl TypeError"

text \<open>\<open>[int(x) for x in xs]\<close>: the first element that fails ends the comprehension.\<close>

fun json_ints :: "env \<Rightarrow> json list \<Rightarrow> error + int list" where
  "json_ints m [] = Inr []"
| "json_ints m (x # xs) =
     (case json_int m x of
        Inl e \<Rightarrow> Inl e
      | Inr i \<Rightarrow> (case json_ints m xs of Inl e \<Rightarrow> Inl e | Inr is \<Rightarrow> Inr (i # is)))"

text \<open>
  \<open>for x in v\<close> on a decoded JSON value: a list gives its elements, a string its
  characters, a dict its keys; \<open>None\<close>, a number and a boolean cannot be iterated.
\<close>

definition is_continuation :: "char \<Rightarrow> bool" where
  "is_continuation c = (128 \<le> (of_char c :: nat) \<and> (of_char c :: nat) < 192)"

text \<open>The characters of a string: every byte with the continuation bytes that follow it.\<close>

fun utf8_chars :: "string \<Rightarrow> string list" where
  "utf8_chars [] = []"
| "utf8_chars (c # cs) =
     (case utf8_chars cs of
        [] \<Rightarrow> [[c]]
      | g # gs \<Rightarrow>
          (case g of
             [] \<Rightarrow> [c] # gs
           | d # ds \<Rightarrow> if is_continuation d then (c # g) # gs else [c] # g # gs))"

fun iterate :: "json option \<Rightarrow> error + json list" where
  "iterate (Some (JList l)) = Inr l"
| "iterate (Some (JStr s)) = Inr (map JStr (utf8_chars s))"
| "iterate (Some (JObj d)) = Inr (map (\<lambda>kv. JStr (fst kv)) d)"
| "iterate _ = Inl TypeError"

text \<open>\<open>xs[i]\<close> on a Python list: a negative index counts from the end, an index outside
  the list raises IndexError.\<close>

definition py_index :: "'a list \<Rightarrow> int \<Rightarrow> error + 'a" where
  "py_index xs i =
     (if 0 \<le> i \<and> i < int (length xs) then Inr (xs ! nat i)
      else if i < 0 \<and> - int (length xs) \<le> i then Inr (xs ! nat (int (length xs) + i))
      else Inl IndexError)"

subsection \<open>Pagination\<close>







subsection \<open>Listing handlers\<close>





text \<open>
  \<open>_AtomsHandler.get\<close> calls \<open>subjob.atoms()\<close>, where \<open>_AtomHandler.get\<close> subscripts
  \<open>subjob.atoms\<close>. The attribute is the subjob's atom list, and calling a list raises
  TypeError: the list is not callable.
\<close>

definition call_list :: "'a list \<Rightarrow> error + 'a list" where
  "call_list xs = Inl TypeError"

definition AtomsHandler_get :: "env \<Rightarrow> request \<Rightarrow> string \<Rightarrow> string \<Rightarrow> exec" where
  "AtomsHandler_get m req build_id subjob_id =
     (case py_int m build_id of
        Inl x \<Rightarrow> ([], Raised x)
      | Inr b \<Rightarrow>
     (case get_build m b of
        Inl x \<Rightarrow> ([GetBuild b], Raised x)
      | Inr build \<Rightarrow>
     (case py_int m subjob_id of
        Inl x \<Rightarrow> ([GetBuild b], Raised x)
      | Inr s \<Rightarrow>
     (case subjob build s of
        Inl x \<Rightarrow> ([GetBuild b, GetSubjob s], Raised x)
      | Inr sj \<Rightarrow>
     (case call_list (atoms sj) of
        Inl x \<Rightarrow> ([GetBuild b, GetSubjob s], Raised x)
      | Inr as \<Rightarrow>
          ([GetBuild b, GetSubjob s],
           Wrote (JObj [(''atoms'', JList (map atom_api_representation as))])))))))"



subsection \<open>\<open>_AtomHandler\<close>\<close>

definition AtomHandler_get :: "env \<Rightarrow> request \<Rightarrow> string \<Rightarrow> string \<Rightarrow> string \<Rightarrow> exec" where
  "AtomHandler_get m req build_id subjob_id atom_id =
     (case py_int m build_id of
        Inl x \<Rightarrow> ([], Raised x)
      | Inr b \<Rightarrow>
     (case get_build m b of
        Inl x \<Rightarrow> ([GetBuild b], Raised x)
      | Inr build \<Rightarrow>
     (case py_int m subjob_id of
        Inl x \<Rightarrow> ([GetBuild b], Raised x)
      | Inr s \<Rightarrow>
     (case subjob build s of
        Inl x \<Rightarrow> ([GetBuild b, GetSubjob s], Raised x)
      | Inr sj \<Rightarrow>
     (case py_int m atom_id of
        Inl x \<Rightarrow> ([GetBuild b, GetSubjob s], Raised x)
      | Inr a \<Rightarrow>
     (case py_index (atoms sj) a of
        Inl x \<Rightarrow> ([GetBuild b, GetSubjob s], Raised x)
      | Inr atom \<Rightarrow>
          ([GetBuild b, GetSubjob s],
           Wrote (JObj [(''atom'', atom_api_representation atom)]))))))))"

subsection \<open>The authentication gate\<close>

text \<open>
  Modelled from the spec: the decorator \<open>authenticated\<close> of app.util.decorators is not
  in src. Spec 6 and 7: a protected endpoint requires a credential; a request whose
  credential is missing or invalid is rejected before the handler body executes. The
  check of the credential is the collaborator \<open>credential_valid\<close>.
\<close>

definition authenticated :: "(env \<Rightarrow> request \<Rightarrow> exec) \<Rightarrow> env \<Rightarrow> request \<Rightarrow> exec" where
  "authenticated body m req =
     (if credential_valid m req then body m req else ([], Raised AuthenticationError))"

subsection \<open>Handlers that change the master\<close>

text \<open>\<open>http.client\<close>: \<open>OK\<close>, \<open>ACCEPTED\<close>, \<open>BAD_REQUEST\<close>.\<close>

definition http_OK :: nat where
  "http_OK = 200"

definition http_ACCEPTED :: nat where
  "http_ACCEPTED = 202"

definition http_BAD_REQUEST :: nat where
  "http_BAD_REQUEST = 400"

definition BuildsHandler_post_body :: "env \<Rightarrow> request \<Rightarrow> exec" where
  "BuildsHandler_post_body m req =
     (let build_params = decoded_body req
      in case handle_request_for_new_build m build_params of
           Inl x \<Rightarrow> ([HandleRequestForNewBuild build_params], Raised x)
         | Inr (success, response) \<Rightarrow>
             (let status_code = (if success then http_ACCEPTED else http_BAD_REQUEST)
              in ([HandleRequestForNewBuild build_params],
                  WroteStatus (Some response) (Some success) (Some status_code))))"

definition BuildsHandler_post :: "env \<Rightarrow> request \<Rightarrow> exec" where
  "BuildsHandler_post = authenticated BuildsHandler_post_body"

definition BuildHandler_put_body :: "string \<Rightarrow> env \<Rightarrow> request \<Rightarrow> exec" where
  "BuildHandler_put_body build_id m req =
     (let update_params = decoded_body req
      in case handle_request_to_update_build m build_id update_params of
           Inl x \<Rightarrow> ([HandleRequestToUpdateBuild build_id update_params], Raised x)
         | Inr (success, response) \<Rightarrow>
             (let status_code = (if success then http_OK else http_BAD_REQUEST)
              in ([HandleRequestToUpdateBuild build_id update_params],
                  WroteStatus (Some response) (Some success) (Some status_code))))"

definition BuildHandler_put :: "env \<Rightarrow> request \<Rightarrow> string \<Rightarrow> exec" where
  "BuildHandler_put m req build_id = authenticated (BuildHandler_put_body build_id) m req"

definition SlaveHandler_put_body :: "string \<Rightarrow> env \<Rightarrow> request \<Rightarrow> exec" where
  "SlaveHandler_put_body slave_id m req =
     (case dict_get2 (decoded_body req) ''slave'' ''state'' of
        Inl x \<Rightarrow> ([], Raised x)
      | Inr new_slave_state \<Rightarrow>
     (case py_int m slave_id of
        Inl x \<Rightarrow> ([], Raised x)
      | Inr i \<Rightarrow>
     (case get_slave_by_id m i of
        Inl x \<Rightarrow> ([GetSlaveById i], Raised x)
      | Inr sl \<Rightarrow>
     (case handle_slave_state_update m sl new_slave_state of
        Inl x \<Rightarrow> ([GetSlaveById i, HandleSlaveStateUpdate (ident sl) new_slave_state], Raised x)
      | Inr sl' \<Rightarrow>
     (case update_slave_last_heartbeat_time m sl' of
        Inl x \<Rightarrow>
          ([GetSlaveById i, HandleSlaveStateUpdate (ident sl) new_slave_state,
            UpdateSlaveLastHeartbeatTime (ident sl')], Raised x)
      | Inr _ \<Rightarrow>
          ([GetSlaveById i, HandleSlaveStateUpdate (ident sl) new_slave_state,
            UpdateSlaveLastHeartbeatTime (ident sl')],
           WroteStatus (Some (JObj [(''slave'', slave_api_representation sl')])) None None))))))"

definition SlaveHandler_put :: "env \<Rightarrow> request \<Rightarrow> string \<Rightarrow> exec" where
  "SlaveHandler_put m req slave_id = authenticated (SlaveHandler_put_body slave_id) m req"

text \<open>The two shutdown handlers end after the call to the master; they write nothing.\<close>

definition SlaveShutdownHandler_post_body :: "string \<Rightarrow> env \<Rightarrow> request \<Rightarrow> exec" where
  "SlaveShutdownHandler_post_body slave_id m req =
     (case py_int m slave_id of
        Inl x \<Rightarrow> ([], Raised x)
      | Inr i \<Rightarrow>
          (let slaves_to_shutdown = [i]
           in case set_shutdown_mode_on_slaves m slaves_to_shutdown of
                Inl x \<Rightarrow> ([SetShutdownModeOnSlaves slaves_to_shutdown], Raised x)
              | Inr _ \<Rightarrow> ([SetShutdownModeOnSlaves slaves_to_shutdown], NoOutput)))"

definition SlaveShutdownHandler_post :: "env \<Rightarrow> request \<Rightarrow> string \<Rightarrow> exec" where
  "SlaveShutdownHandler_post m req slave_id =
     authenticated (SlaveShutdownHandler_post_body slave_id) m req"

definition SlavesShutdownHandler_post_body :: "env \<Rightarrow> request \<Rightarrow> exec" where
  "SlavesShutdownHandler_post_body m req =
     (let shutdown_all = dict_get (decoded_body req) ''shutdown_all'' in
      if truthy shutdown_all then
        (let slaves_to_shutdown = map fst (all_slaves_by_id m)
         in case set_shutdown_mode_on_slaves m slaves_to_shutdown of
              Inl x \<Rightarrow> ([GetAllSlavesById, SetShutdownModeOnSlaves slaves_to_shutdown], Raised x)
            | Inr _ \<Rightarrow> ([GetAllSlavesById, SetShutdownModeOnSlaves slaves_to_shutdown], NoOutput))
      else
        (case iterate (dict_get (decoded_body req) ''slaves'') of
           Inl x \<Rightarrow> ([], Raised x)
         | Inr ids \<Rightarrow>
             (case json_ints m ids of
                Inl x \<Rightarrow> ([], Raised x)
              | Inr slaves_to_shutdown \<Rightarrow>
                  (case set_shutdown_mode_on_slaves m slaves_to_shutdown of
                     Inl x \<Rightarrow> ([SetShutdownModeOnSlaves slaves_to_shutdown], Raised x)
                   | Inr _ \<Rightarrow> ([SetShutdownModeOnSlaves slaves_to_shutdown], NoOutput)))))"

definition SlavesShutdownHandler_post :: "env \<Rightarrow> request \<Rightarrow> exec" where
  "SlavesShutdownHandler_post = authenticated SlavesShutdownHandler_post_body"

subsection \<open>\<open>_BuildResultRedirectHandler\<close>\<close>

definition BuildResultRedirectHandler_get :: "env \<Rightarrow> request \<Rightarrow> string \<Rightarrow> exec" where
  "BuildResultRedirectHandler_get m req build_id =
     ([], Redirect (''/v1/build/'' @ build_id @ ''/artifacts.tar.gz''))"

subsection \<open>\<open>_SubjobResultHandler\<close>\<close>

text \<open>
  \<open>post\<close>: the slave is looked up first; a missing or empty \<open>file\<close> entry raises
  before the event is recorded and before the result is handed to the master.
\<close>

definition SubjobResultHandler_post :: "env \<Rightarrow> request \<Rightarrow> string \<Rightarrow> string \<Rightarrow> exec" where
  "SubjobResultHandler_post m req build_id subjob_id =
     (let slave_url = dict_get (decoded_body req) ''slave'';
          c1 = [GetSlaveByUrl slave_url]
      in case get_slave_by_url m slave_url of
           Inl x \<Rightarrow> (c1, Raised x)
         | Inr sl \<Rightarrow>
      (case map_of (files req) ''file'' of
           None \<Rightarrow> (c1, Raised (RuntimeError ''Result file not provided''))
         | Some [] \<Rightarrow> (c1, Raised (RuntimeError ''Result file not provided''))
         | Some (file0 # _) \<Rightarrow>
      (case dict_get2 (decoded_body req) ''metric_data'' ''executor_id'' of
           Inl x \<Rightarrow> (c1, Raised x)
         | Inr slave_executor_id \<Rightarrow>
      (case py_int m build_id of
           Inl x \<Rightarrow> (c1, Raised x)
         | Inr b \<Rightarrow>
      (case py_int m subjob_id of
           Inl x \<Rightarrow> (c1, Raised x)
         | Inr s \<Rightarrow>
          (let c2 = c1 @ [RecordEvent slave_executor_id b s (ident sl),
                          HandleResultReportedFromSlave slave_url b s file0]
           in case handle_result_reported_from_slave m slave_url b s file0 of
                Inl x \<Rightarrow> (c2, Raised x)
              | Inr _ \<Rightarrow> (c2, WroteStatus None None None)))))))"

section \<open>The route tree and its compilation\<close>

subsection \<open>Handler classes and route nodes\<close>

datatype handler =
    RootHandler
  | APIVersionOneHandler
  | VersionHandler
  | MetricsHandler
  | QueueHandler
  | SubjobsHandler
  | V2SubjobsHandler
  | SubjobHandler
  | SubjobResultHandler
  | AtomsHandler
  | V2AtomsHandler
  | AtomHandler
  | AtomConsoleHandler
  | BuildsHandler
  | V2BuildsHandler
  | BuildHandler
  | BuildResultRedirectHandler
  | BuildTarResultHandler
  | BuildZipResultHandler
  | SlavesHandler
  | SlaveHandler
  | EventlogHandler
  | SlaveShutdownHandler
  | SlavesShutdownHandler
  | SlavesHeartbeatHandler

text \<open>
  Modelled from the spec: the class \<open>RouteNode\<close> of app.web_framework.route_node is not
  in src. Spec 3: a route node has a path-segment pattern, the handler it dispatches to,
  an optional symbolic name and an ordered collection of child nodes; a version mount
  tags the mounted nodes with a version.
\<close>

datatype route_node =
  RouteNode (regex_part: string) (handler: handler) (name: "string option")
    (version: "nat option") (children: "route_node list")

text \<open>\<open>RouteNode(regex, handler)\<close> and \<open>RouteNode(regex, handler, name)\<close>.\<close>

definition route :: "string \<Rightarrow> handler \<Rightarrow> route_node" where
  "route re h = RouteNode re h None None []"

definition route_named :: "string \<Rightarrow> handler \<Rightarrow> string \<Rightarrow> route_node" where
  "route_named re h l = RouteNode re h (Some l) None []"

text \<open>
  Modelled from the spec: \<open>add_children(children, version=None)\<close> appends the children
  in their order and returns the node (the source chains the call); with a version it
  is the spec's version mount, which tags the mounted nodes.
\<close>

definition set_version :: "nat option \<Rightarrow> route_node \<Rightarrow> route_node" where
  "set_version v n =
     (case v of
        None \<Rightarrow> n
      | Some k \<Rightarrow> RouteNode (regex_part n) (handler n) (name n) (Some k) (children n))"

definition add_children_version :: "route_node \<Rightarrow> route_node list \<Rightarrow> nat option \<Rightarrow> route_node" where
  "add_children_version n kids v =
     RouteNode (regex_part n) (handler n) (name n) (version n)
       (children n @ map (set_version v) kids)"

definition add_children :: "route_node \<Rightarrow> route_node list \<Rightarrow> route_node" where
  "add_children n kids = add_children_version n kids None"

subsection \<open>The tree of \<open>ClusterMasterApplication.__init__\<close>\<close>

text \<open>The raw string \<open>(\d+)\<close>.\<close>

definition id_group :: string where
  "id_group = [CHR ''('', CHR 0x5C, CHR ''d'', CHR ''+'', CHR '')'']"

definition api_v1 :: "route_node list" where
  "api_v1 =
     [add_children (route ''v1'' APIVersionOneHandler)
        [route ''metrics'' MetricsHandler,
         route ''version'' VersionHandler,
         add_children (route_named ''build'' BuildsHandler ''builds'')
           [add_children (route_named id_group BuildHandler ''build'')
              [route ''result'' BuildResultRedirectHandler,
               route ''artifacts.tar.gz'' BuildTarResultHandler,
               route ''artifacts.zip'' BuildZipResultHandler,
               add_children (route_named ''subjob'' SubjobsHandler ''subjobs'')
                 [add_children (route_named id_group SubjobHandler ''subjob'')
                    [add_children (route_named ''atom'' AtomsHandler ''atoms'')
                       [add_children (route_named id_group AtomHandler ''atom'')
                          [route ''console'' AtomConsoleHandler]],
                     route ''result'' SubjobResultHandler]]]],
         route ''queue'' QueueHandler,
         add_children (route_named ''slave'' SlavesHandler ''slaves'')
           [add_children (route_named id_group SlaveHandler ''slave'')
              [route_named ''shutdown'' SlaveShutdownHandler ''shutdown'',
               route ''heartbeat'' SlavesHeartbeatHandler],
            route_named ''shutdown'' SlavesShutdownHandler ''shutdown''],
         route ''eventlog'' EventlogHandler]]"

definition api_v2 :: "route_node list" where
  "api_v2 =
     [route ''metrics'' MetricsHandler,
      route ''version'' VersionHandler,
      add_children (route ''builds'' V2BuildsHandler)
        [add_children (route_named id_group BuildHandler ''build'')
           [route ''result'' BuildResultRedirectHandler,
            route ''artifacts.tar.gz'' BuildTarResultHandler,
            route ''artifacts.zip'' BuildZipResultHandler,
            add_children (route ''subjobs'' V2SubjobsHandler)
              [add_children (route_named id_group SubjobHandler ''subjob'')
                 [add_children (route ''atoms'' V2AtomsHandler)
                    [add_children (route_named id_group AtomHandler ''atom'')
                       [route ''console'' AtomConsoleHandler]],
                  route ''result'' SubjobResultHandler]]]],
      route ''queue'' QueueHandler,
      add_children (route ''slaves'' SlavesHandler)
        [add_children (route_named id_group SlaveHandler ''slave'')
           [route ''shutdown'' SlaveShutdownHandler,
            route ''heartbeat'' SlavesHeartbeatHandler],
         route ''shutdown'' SlavesShutdownHandler],
      route ''eventlog'' EventlogHandler]"

definition root :: route_node where
  "root =
     add_children_version
       (add_children_version (route ''/'' RootHandler) api_v1 (Some 1))
       api_v2 (Some 2)"

text \<open>The node that a list of sibling nodes holds under a path of segment patterns.\<close>

fun node_at :: "route_node list \<Rightarrow> string list \<Rightarrow> route_node option" where
  "node_at nodes [] = None"
| "node_at nodes [seg] = find (\<lambda>n. regex_part n = seg) nodes"
| "node_at nodes (seg # segs) =
     (case find (\<lambda>n. regex_part n = seg) nodes of
        None \<Rightarrow> None
      | Some n \<Rightarrow> node_at (children n) segs)"

subsection \<open>Compilation of the tree into the handler table\<close>

text \<open>\<open>'/'.join(parts)\<close>.\<close>

fun join :: "string list \<Rightarrow> string" where
  "join [] = []"
| "join [p] = p"
| "join (p # q # ps) = p @ ''/'' @ join (q # ps)"

text \<open>
  A compiled route entry: the full pattern, the handler class and the parameter bag,
  which holds the default parameters, the entry's own route node and its version tag.
\<close>

datatype 'd entry =
  Entry (full_pattern: string) (handler_type: handler) (default_params: 'd)
    (route_node: route_node) (version_tag: "nat option")

datatype construction_error = RoutingAmbiguity

definition version_segment :: "nat \<Rightarrow> string" where
  "version_segment k = ''v'' @ str_nat k"

text \<open>
  Modelled from the spec: \<open>ClusterApplication.get_all_handlers\<close> is not in src.
  Spec 3 and 4.1: one entry per node of the tree, the root included, in pre-order; the
  full pattern of a node is the \<open>/\<close>-joined concatenation of the patterns from the root
  to the node; a subtree mounted with a version lies under the prefix segment of that
  version and all its entries carry the version tag.
\<close>

fun route_entries :: "'d \<Rightarrow> string list \<Rightarrow> nat option \<Rightarrow> route_node \<Rightarrow> 'd entry list" where
  "route_entries dp ancestors inherited (RouteNode re h l v kids) =
     (let ver = (case v of None \<Rightarrow> inherited | Some k \<Rightarrow> Some k);
          parts = ancestors @ (case v of None \<Rightarrow> [] | Some k \<Rightarrow> [version_segment k]) @ [re]
      in Entry (join parts) h dp (RouteNode re h l v kids) ver
         # concat (map (route_entries dp parts ver) kids))"

definition entry_key :: "'d entry \<Rightarrow> nat option \<times> string" where
  "entry_key e = (version_tag e, full_pattern e)"

text \<open>
  Modelled from the spec: the failure policy of spec 4.1. Two entries of one version
  with the same full pattern make the compilation fail with \<open>RoutingAmbiguity\<close>.
\<close>

definition get_all_handlers :: "route_node \<Rightarrow> 'd \<Rightarrow> construction_error + 'd entry list" where
  "get_all_handlers root_route dp =
     (let handlers = route_entries dp [] None root_route
      in if distinct (map entry_key handlers) then Inr handlers else Inl RoutingAmbiguity)"

text \<open>
  \<open>ClusterMasterApplication.__init__\<close>: the default parameters hold the cluster master;
  the handlers of the tree are handed to the application, and a failure of the
  compilation leaves the constructor.
\<close>

definition ClusterMasterApplication_init :: "env \<Rightarrow> construction_error + env entry list" where
  "ClusterMasterApplication_init cluster_master =
     (let default_params = cluster_master
      in get_all_handlers root default_params)"

section \<open>Example collaborators and requests\<close>

subsection \<open>An \<open>int\<close> for the examples\<close>

definition is_space :: "char \<Rightarrow> bool" where
  "is_space c =
     (c \<in> set [CHR '' '', CHR 0x09, CHR 0x0A, CHR 0x0B, CHR 0x0C, CHR 0x0D,
                CHR 0x1C, CHR 0x1D, CHR 0x1E, CHR 0x1F])"

definition strip :: "string \<Rightarrow> string" where
  "strip s = rev (dropWhile is_space (rev (dropWhile is_space s)))"

definition is_digit :: "char \<Rightarrow> bool" where
  "is_digit c = (c \<in> set ''0123456789'')"

definition digit_val :: "char \<Rightarrow> nat" where
  "digit_val c = of_char c - 48"

definition digits_value :: "string \<Rightarrow> nat" where
  "digits_value ds = foldl (\<lambda>a c. 10 * a + digit_val c) 0 ds"

text \<open>Decimal digits, with single underscores allowed between two digits.\<close>

fun valid_digits :: "string \<Rightarrow> bool" where
  "valid_digits [] = False"
| "valid_digits [c] = is_digit c"
| "valid_digits (c # d # r) =
     (is_digit c \<and> (if d = CHR ''_'' then valid_digits r else valid_digits (d # r)))"

text \<open>
  Python's \<open>int\<close> on ASCII text: surrounding whitespace is dropped, one sign is
  allowed, and anything else than decimal digits raises ValueError. On text with other
  characters Python's \<open>int\<close> may differ from it; the examples hold ASCII text only.
\<close>

definition ascii_int :: "string \<Rightarrow> error + int" where
  "ascii_int s =
     (let t = strip s;
          sb = (case t of
                  [] \<Rightarrow> (1, t)
                | c # r \<Rightarrow> if c = CHR ''-'' then (- 1, r)
                           else if c = CHR ''+'' then (1, r) else (1, t))
      in if valid_digits (snd sb)
         then Inr (fst sb * int (digits_value (filter (\<lambda>c. c \<noteq> CHR ''_'') (snd sb))))
         else Inl ValueError)"

subsection \<open>A master, its builds and slaves, and some requests\<close>

text \<open>
  A master with one build (id 1) of two subjobs: subjob 0 runs on the worker at
  \<open>http://worker-7:8080\<close> and has two atoms, subjob 1 has no worker. The master holds no
  console output, lists five builds and knows five slaves.
\<close>

definition worker7 :: Slave where
  "worker7 = \<lparr>ident = 7, url = ''http://worker-7:8080'', slave_api_representation = JInt 7\<rparr>"

definition subjob_assigned :: Subjob where
  "subjob_assigned =
     \<lparr>subjob_api_representation = JInt 0,
      atoms = [\<lparr>atom_api_representation = JStr ''atom 0''\<rparr>,
               \<lparr>atom_api_representation = JStr ''atom 1''\<rparr>],
      slave = Some worker7\<rparr>"

definition subjob_unassigned :: Subjob where
  "subjob_unassigned =
     \<lparr>subjob_api_representation = JInt 1,
      atoms = [\<lparr>atom_api_representation = JStr ''atom 0''\<rparr>],
      slave = None\<rparr>"

definition build1 :: Build where
  "build1 =
     \<lparr>build_api_representation = JInt 1,
      subjob = (\<lambda>i. if i = 0 then Inr subjob_assigned
                     else if i = 1 then Inr subjob_unassigned
                     else Inl (ItemNotFoundError ''Invalid subjob id.'')),
      all_subjobs = [subjob_assigned, subjob_unassigned]\<rparr>"

definition numbered_build :: "int \<Rightarrow> Build" where
  "numbered_build k =
     \<lparr>build_api_representation = JInt k,
      subjob = (\<lambda>i. Inl (ItemNotFoundError ''Invalid subjob id.'')),
      all_subjobs = []\<rparr>"

definition numbered_slave :: "int \<Rightarrow> Slave" where
  "numbered_slave k = \<lparr>ident = k, url = ''worker:8080'', slave_api_representation = JInt k\<rparr>"

definition example_url_builder :: "string \<Rightarrow> string list \<Rightarrow> string" where
  "example_url_builder address args = address @ ''/v1'' @ concat (map (\<lambda>a. ''/'' @ a) args)"

definition example_master :: env where
  "example_master =
     \<lparr>get_console_output = (\<lambda>b s a d ml ol. Inl (ItemNotFoundError ''no console output'')),
      get_build = (\<lambda>i. if i = 1 then Inr build1 else Inl (ItemNotFoundError ''Invalid build id.'')),
      all_builds = map numbered_build [0, 1, 2, 3, 4],
      handle_request_for_new_build = (\<lambda>params. Inr (params \<noteq> [], JObj params)),
      handle_request_to_update_build = (\<lambda>b params. Inr (params \<noteq> [], JObj params)),
      set_shutdown_mode_on_slaves = (\<lambda>ids. Inr ()),
      handle_slave_state_update = (\<lambda>sl state. Inr sl),
      update_slave_last_heartbeat_time = (\<lambda>sl. Inr ()),
      handle_result_reported_from_slave = (\<lambda>u b s f. Inr ()),
      get_slave_by_url = (\<lambda>u. Inr worker7),
      get_slave_by_id = (\<lambda>i. Inr (numbered_slave i)),
      all_slaves_by_id = map (\<lambda>k. (k, numbered_slave k)) [0, 1, 2, 3, 4],
      results_directory = ''/var/results'',
      url_builder = example_url_builder,
      credential_valid = (\<lambda>req. map_of (headers req) ''digest'' = Some ''valid''),
      py_int = ascii_int\<rparr>"

definition plain_request :: request where
  "plain_request = \<lparr>headers = [], query = Map.empty, decoded_body = [], files = []\<rparr>"


definition signed_request :: request where
  "signed_request =
     \<lparr>headers = [(''digest'', ''valid'')], query = Map.empty,
      decoded_body = [(''type'', JStr ''git'')], files = []\<rparr>"

definition signed_empty_request :: request where
  "signed_empty_request =
     \<lparr>headers = [(''digest'', ''valid'')], query = Map.empty, decoded_body = [], files = []\<rparr>"

definition console_request :: request where
  "console_request =
     \<lparr>headers = [], query = [''max_lines'' \<mapsto> ''7'', ''offset_line'' \<mapsto> ''3''],
      decoded_body = [], files = []\<rparr>"

text \<open>A tree that mounts two nodes with the same pattern in one version.\<close>

definition ambiguous_tree :: route_node where
  "ambiguous_tree =
     add_children_version (route ''/'' RootHandler)
       [route ''queue'' QueueHandler, route ''queue'' EventlogHandler] (Some 1)"

text \<open>Whether an outcome is the envelope that \<open>_write_status\<close> writes.\<close>

fun is_envelope :: "outcome \<Rightarrow> bool" where
  "is_envelope (WroteStatus response success status_code) = True"
| "is_envelope _ = False"

section \<open>Properties\<close>

lemmas ascii_int_eval =
  ascii_int_def strip_def is_space_def is_digit_def digits_value_def digit_val_def

lemma example_int:
  "py_int example_master ''0'' = Inr 0" "py_int example_master ''1'' = Inr 1"
  "py_int example_master ''2'' = Inr 2" "py_int example_master ''3'' = Inr 3"
  "py_int example_master ''7'' = Inr 7"
  by (simp_all add: example_master_def ascii_int_eval)

lemma plain_console_arguments:
  "console_max_lines example_master plain_request = Inr 50"
  "console_offset_line example_master plain_request = Inr None"
  by (simp_all add: console_max_lines_def console_offset_line_def plain_request_def)

lemma example_console_not_found:
  "get_console_output example_master b s a (results_directory example_master) ml ol =
     Inl (ItemNotFoundError ''no console output'')"
  by (simp add: example_master_def)

lemma example_build1: "get_build example_master 1 = Inr build1"
  by (simp add: example_master_def)

lemma example_subjobs:
  "subjob build1 0 = Inr subjob_assigned" "subjob build1 1 = Inr subjob_unassigned"
  by (simp_all add: build1_def)

lemma str_int_examples: "str_int 50 = ''50''" "str_int 7 = ''7''" "str_int 3 = ''3''"
  by (simp_all add: str_int_def str_nat.simps)

subsection \<open>The console fallback\<close>

text \<open>
  C1: when the master's console store raises ItemNotFoundError and the subjob has a
  slave, the console handler redirects to the URL that the URL builder of the slave's
  address gives for build/<build id>/subjob/<subjob id>/atom/<atom id>/console, with the
  query string \<open>max_lines=<n>\<close>, where n is the integer the client sent as
  \<open>max_lines\<close> and 50 when it sent none, followed by \<open>&offset_line=<k>\<close> with the
  integer k the client sent as \<open>offset_line\<close>, and by nothing when it sent none. The
  store was asked with the same n and k.
\<close>

theorem console_not_found_redirects_to_slave:
  assumes "case query req ''max_lines'' of
             None \<Rightarrow> max_lines = 50
           | Some v \<Rightarrow> py_int m v = Inr max_lines"
    and "case query req ''offset_line'' of
           None \<Rightarrow> offset_line = None
         | Some v \<Rightarrow> (\<exists>ol. py_int m v = Inr ol \<and> offset_line = Some ol)"
    and "get_console_output m build_id subjob_id atom_id (results_directory m)
           max_lines offset_line = Inl (ItemNotFoundError msg)"
    and "py_int m build_id = Inr b" and "get_build m b = Inr build"
    and "py_int m subjob_id = Inr s" and "subjob build s = Inr sj"
    and "slave sj = Some w"
  shows "AtomConsoleHandler_get m req build_id subjob_id atom_id =
           ([GetConsoleOutput build_id subjob_id atom_id (results_directory m)
               max_lines offset_line,
             GetBuild b, GetSubjob s],
            Redirect (url_builder m (url w)
                        [''build'', build_id, ''subjob'', subjob_id, ''atom'', atom_id,
                         ''console'']
                      @ ''?max_lines='' @ str_int max_lines
                      @ (case offset_line of
                           None \<Rightarrow> []
                         | Some ol \<Rightarrow> ''&offset_line='' @ str_int ol)))"
proof -
  have ml: "console_max_lines m req = Inr max_lines"
    using assms(1) by (simp add: console_max_lines_def split: option.splits)
  have ol: "console_offset_line m req = Inr offset_line"
    using assms(2) by (auto simp: console_offset_line_def split: option.splits)
  show ?thesis
    using assms(3-8)
    by (simp add: AtomConsoleHandler_get_def AtomConsoleHandler_fallback_def ml ol
        split: option.splits)
qed

theorem console_not_found_redirects_to_slave_witness:
  "snd (AtomConsoleHandler_get example_master plain_request ''1'' ''0'' ''3'') =
     Redirect ''http://worker-7:8080/v1/build/1/subjob/0/atom/3/console?max_lines=50''
   \<and> snd (AtomConsoleHandler_get example_master console_request ''1'' ''0'' ''3'') =
     Redirect
       ''http://worker-7:8080/v1/build/1/subjob/0/atom/3/console?max_lines=7&offset_line=3''"
proof -
  have w: "slave subjob_assigned = Some worker7"
    by (simp add: subjob_assigned_def)
  have d1: "case query plain_request ''max_lines'' of
              None \<Rightarrow> (50::int) = 50
            | Some v \<Rightarrow> py_int example_master v = Inr 50"
    by (simp add: plain_request_def)
  have d2: "case query plain_request ''offset_line'' of
              None \<Rightarrow> (None :: int option) = None
            | Some v \<Rightarrow> (\<exists>ol. py_int example_master v = Inr ol \<and> None = Some ol)"
    by (simp add: plain_request_def)
  have s1: "case query console_request ''max_lines'' of
              None \<Rightarrow> (7::int) = 50
            | Some v \<Rightarrow> py_int example_master v = Inr 7"
    by (simp add: console_request_def example_int)
  have s2: "case query console_request ''offset_line'' of
              None \<Rightarrow> Some (3::int) = None
            | Some v \<Rightarrow> (\<exists>ol. py_int example_master v = Inr ol \<and> Some 3 = Some ol)"
    by (simp add: console_request_def example_int)
  note default =
    console_not_found_redirects_to_slave
      [OF d1 d2 example_console_not_found example_int(2) example_build1 example_int(1)
          example_subjobs(1) w, of "''3''"]
  note supplied =
    console_not_found_redirects_to_slave
      [OF s1 s2 example_console_not_found example_int(2) example_build1 example_int(1)
          example_subjobs(1) w, of "''3''"]
  show ?thesis
    using default supplied str_int_examples
    by (simp add: example_master_def example_url_builder_def worker7_def)
qed

text \<open>
  C2: when the master's console store raises ItemNotFoundError and the subjob has no
  slave, the handler raises the very error it caught: the outcome is neither a redirect
  nor a written body.
\<close>

theorem console_not_found_without_slave_reraises:
  assumes "console_max_lines m req = Inr max_lines"
    and "console_offset_line m req = Inr offset_line"
    and "get_console_output m build_id subjob_id atom_id (results_directory m)
           max_lines offset_line = Inl (ItemNotFoundError msg)"
    and "py_int m build_id = Inr b" and "get_build m b = Inr build"
    and "py_int m subjob_id = Inr s" and "subjob build s = Inr sj"
    and "slave sj = None"
  shows "snd (AtomConsoleHandler_get m req build_id subjob_id atom_id) =
           Raised (ItemNotFoundError msg)"
  using assms
  by (simp add: AtomConsoleHandler_get_def AtomConsoleHandler_fallback_def)

theorem console_not_found_without_slave_reraises_witness:
  "snd (AtomConsoleHandler_get example_master plain_request ''1'' ''1'' ''0'') =
     Raised (ItemNotFoundError ''no console output'')"
proof -
  have w: "slave subjob_unassigned = None"
    by (simp add: subjob_unassigned_def)
  show ?thesis
    by (rule console_not_found_without_slave_reraises
               [OF plain_console_arguments example_console_not_found example_int(2)
                   example_build1 example_int(2) example_subjobs(2) w])
qed

subsection \<open>The authentication gate\<close>

text \<open>
  C6: a request without a valid credential to build creation, build update, slave state
  update or slave shutdown is rejected by the gate: the handler makes no collaborator
  call at all and the outcome is the authentication error.
\<close>

theorem unauthenticated_rejected_before_body:
  assumes "\<not> credential_valid m req"
  shows "BuildsHandler_post m req = ([], Raised AuthenticationError)
       \<and> BuildHandler_put m req build_id = ([], Raised AuthenticationError)
       \<and> SlaveHandler_put m req slave_id = ([], Raised AuthenticationError)
       \<and> SlaveShutdownHandler_post m req slave_id = ([], Raised AuthenticationError)
       \<and> SlavesShutdownHandler_post m req = ([], Raised AuthenticationError)"
  using assms
  by (simp add: BuildsHandler_post_def BuildHandler_put_def SlaveHandler_put_def
      SlaveShutdownHandler_post_def SlavesShutdownHandler_post_def authenticated_def)

theorem unauthenticated_rejected_before_body_witness:
  "\<not> credential_valid example_master plain_request
   \<and> BuildsHandler_post example_master plain_request = ([], Raised AuthenticationError)
   \<and> SlaveShutdownHandler_post example_master plain_request ''7'' =
       ([], Raised AuthenticationError)"
proof -
  have unsigned: "\<not> credential_valid example_master plain_request"
    by (simp add: example_master_def plain_request_def)
  show ?thesis
    using unsigned unauthenticated_rejected_before_body [OF unsigned, of "''1''" "''7''"]
    by simp
qed

subsection \<open>Lookup of an atom\<close>

text \<open>
  C8: an atom id that its subjob does not have should surface as the domain error
  ItemNotFoundError. The handler indexes the subjob's atom list without a check: in
  subjob 0 of build 1, which has two atoms, atom 7 raises IndexError.
\<close>

theorem atom_unknown_id_raises_IndexError:
  "AtomHandler_get example_master plain_request ''1'' ''0'' ''7'' =
     ([GetBuild 1, GetSubjob 0], Raised IndexError)"
  by (simp add: AtomHandler_get_def example_int example_build1 example_subjobs
      subjob_assigned_def py_index_def)

text \<open>The same for any master: an index beyond the subjob's atoms raises IndexError.\<close>

lemma atom_index_beyond_atoms:
  assumes "py_int m build_id = Inr b" and "get_build m b = Inr build"
    and "py_int m subjob_id = Inr s" and "subjob build s = Inr sj"
    and "py_int m atom_id = Inr a" and "int (length (atoms sj)) \<le> a"
  shows "snd (AtomHandler_get m req build_id subjob_id atom_id) = Raised IndexError"
  using assms by (simp add: AtomHandler_get_def py_index_def)

subsection \<open>The build result redirect\<close>

text \<open>
  C9: for every build id, GET on the build result entry point makes no collaborator
  call and redirects to /v1/build/<id>/artifacts.tar.gz, the path that the version 1
  tree binds to the tar archive handler.
\<close>

theorem build_result_redirect:
  "BuildResultRedirectHandler_get m req build_id =
     ([], Redirect (''/v1/build/'' @ build_id @ ''/artifacts.tar.gz''))
   \<and> map_option handler (node_at api_v1 [''v1'', ''build'', id_group, ''artifacts.tar.gz''])
       = Some BuildTarResultHandler"
  by (simp add: BuildResultRedirectHandler_get_def api_v1_def add_children_def
      add_children_version_def route_def route_named_def set_version_def id_group_def)

subsection \<open>The subjob result\<close>

text \<open>
  C10: a POST of a subjob result whose files hold no \<open>file\<close> entry raises; the only
  collaborator call made is the lookup of the slave, so neither the event is recorded
  nor the result handed to the master.
\<close>

theorem subjob_result_without_file_raises_before_report:
  assumes "map_of (files req) ''file'' = None"
  shows "fst (SubjobResultHandler_post m req build_id subjob_id) =
           [GetSlaveByUrl (dict_get (decoded_body req) ''slave'')]
         \<and> snd (SubjobResultHandler_post m req build_id subjob_id) =
           Raised (case get_slave_by_url m (dict_get (decoded_body req) ''slave'') of
                     Inl x \<Rightarrow> x
                   | Inr sl \<Rightarrow> RuntimeError ''Result file not provided'')"
  using assms
  by (simp add: SubjobResultHandler_post_def Let_def split: sum.splits)

theorem subjob_result_without_file_raises_before_report_witness:
  "SubjobResultHandler_post example_master signed_request ''1'' ''0'' =
     ([GetSlaveByUrl None], Raised (RuntimeError ''Result file not provided''))"
proof -
  have no_file: "map_of (files signed_request) ''file'' = None"
    by (simp add: signed_request_def)
  show ?thesis
    using subjob_result_without_file_raises_before_report
            [OF no_file, of example_master "''1''" "''0''"]
    by (simp add: prod_eq_iff example_master_def signed_request_def dict_get_def)
qed

subsection \<open>Compilation of the route tree\<close>

lemmas tree_defs = root_def api_v1_def api_v2_def add_children_def add_children_version_def
  route_def route_named_def set_version_def id_group_def

lemma root_entries_distinct: "distinct (map entry_key (route_entries dp [] None root))"
  by (simp add: Let_def tree_defs entry_key_def version_segment_def str_nat.simps)

lemma not_distinct_map_iff:
  "(\<not> distinct (map f xs)) = (\<exists>i j. i < j \<and> j < length xs \<and> f (xs ! i) = f (xs ! j))"
proof
  assume "\<not> distinct (map f xs)"
  then obtain i j where "i < length xs" "j < length xs" "i \<noteq> j" "f (xs ! i) = f (xs ! j)"
    by (auto simp: distinct_conv_nth)
  then have "(i < j \<and> j < length xs \<and> f (xs ! i) = f (xs ! j))
           \<or> (j < i \<and> i < length xs \<and> f (xs ! j) = f (xs ! i))"
    by auto
  then show "\<exists>i j. i < j \<and> j < length xs \<and> f (xs ! i) = f (xs ! j)"
    by blast
next
  assume "\<exists>i j. i < j \<and> j < length xs \<and> f (xs ! i) = f (xs ! j)"
  then obtain i j where ij: "i < j" "j < length xs" "f (xs ! i) = f (xs ! j)"
    by blast
  show "\<not> distinct (map f xs)"
  proof
    assume "distinct (map f xs)"
    then have "(map f xs ! i = map f xs ! j) = (i = j)"
      by (rule nth_eq_iff_index_eq) (use ij in simp_all)
    moreover have "map f xs ! i = f (xs ! i)" "map f xs ! j = f (xs ! j)"
      using ij by simp_all
    ultimately show False
      using ij by simp
  qed
qed

text \<open>
  C5: the compilation fails with RoutingAmbiguity exactly when two entries of the same
  version have the same full pattern, and otherwise gives the table; the failure is a
  value of the constructor, not of a handler. The tree of the master application, whose
  patterns differ in a literal against a captured id (shutdown and the id group under
  slave), compiles without it.
\<close>

theorem routing_ambiguity_at_construction:
  "(get_all_handlers t dp = Inl RoutingAmbiguity) =
     (\<exists>i j. i < j \<and> j < length (route_entries dp [] None t)
        \<and> version_tag (route_entries dp [] None t ! i) = version_tag (route_entries dp [] None t ! j)
        \<and> full_pattern (route_entries dp [] None t ! i) = full_pattern (route_entries dp [] None t ! j))
   \<and> (get_all_handlers t dp \<noteq> Inl RoutingAmbiguity \<longrightarrow>
        get_all_handlers t dp = Inr (route_entries dp [] None t))
   \<and> ClusterMasterApplication_init m = Inr (route_entries m [] None root)"
proof -
  let ?es = "route_entries dp [] None t"
  have A: "(\<not> distinct (map entry_key ?es)) =
        (\<exists>i j. i < j \<and> j < length ?es
           \<and> version_tag (?es ! i) = version_tag (?es ! j)
           \<and> full_pattern (?es ! i) = full_pattern (?es ! j))"
    unfolding not_distinct_map_iff entry_key_def prod.inject ..
  have B: "(get_all_handlers t dp = Inl RoutingAmbiguity) =
        (\<not> distinct (map entry_key ?es))"
    by (simp add: get_all_handlers_def Let_def)
  have C: "get_all_handlers t dp \<noteq> Inl RoutingAmbiguity \<longrightarrow>
        get_all_handlers t dp = Inr ?es"
    by (simp add: get_all_handlers_def Let_def)
  have D: "ClusterMasterApplication_init m = Inr (route_entries m [] None root)"
    by (simp add: ClusterMasterApplication_init_def get_all_handlers_def Let_def
        root_entries_distinct)
  from A B C D show ?thesis by (simp only: simp_thms)
qed

theorem routing_ambiguity_at_construction_witness:
  "get_all_handlers ambiguous_tree () = Inl RoutingAmbiguity"
proof -
  let ?es = "route_entries () [] None ambiguous_tree"
  have es: "?es =
     [Entry ''/'' RootHandler () ambiguous_tree None,
      Entry ''//v1/queue'' QueueHandler ()
        (RouteNode ''queue'' QueueHandler None (Some 1) []) (Some 1),
      Entry ''//v1/queue'' EventlogHandler ()
        (RouteNode ''queue'' EventlogHandler None (Some 1) []) (Some 1)]"
    by (simp add: ambiguous_tree_def Let_def add_children_version_def route_def set_version_def
        version_segment_def str_nat.simps)
  have "(1::nat) < 2 \<and> 2 < length ?es \<and> version_tag (?es ! 1) = version_tag (?es ! 2)
        \<and> full_pattern (?es ! 1) = full_pattern (?es ! 2)"
    unfolding es by simp
  then have "\<exists>i j. i < j \<and> j < length ?es \<and> version_tag (?es ! i) = version_tag (?es ! j)
        \<and> full_pattern (?es ! i) = full_pattern (?es ! j)"
    by blast
  then show ?thesis
    using routing_ambiguity_at_construction [of ambiguous_tree "()"] by blast
qed

subsection \<open>Pagination of the listings\<close>





text \<open>
  The listing of atoms of version 1 is not among the listings that follow: its call of
  the atom list raises TypeError once the build and the subjob are found.
\<close>

lemma v1_atoms_listing_raises:
  assumes "py_int m build_id = Inr b" and "get_build m b = Inr build"
    and "py_int m subjob_id = Inr s" and "subjob build s = Inr sj"
  shows "AtomsHandler_get m req build_id subjob_id =
           ([GetBuild b, GetSubjob s], Raised TypeError)"
  using assms by (simp add: AtomsHandler_get_def call_list_def)



subsection \<open>The outcome of the handlers that change the master\<close>

text \<open>
  C7, as the claim states it, fails twice. The shutdown of a slave, with a valid
  credential, ends after the call to the master and writes no envelope. The shutdown of
  slaves by a list, with a valid credential and a body without \<open>shutdown_all\<close> and
  without \<open>slaves\<close>, iterates \<open>None\<close>: the TypeError leaves the handler.
\<close>

theorem slave_shutdown_writes_no_envelope:
  "credential_valid example_master signed_request
   \<and> SlaveShutdownHandler_post example_master signed_request ''7'' =
       ([SetShutdownModeOnSlaves [7]], NoOutput)
   \<and> \<not> is_envelope (snd (SlaveShutdownHandler_post example_master signed_request ''7''))
   \<and> credential_valid example_master signed_empty_request
   \<and> SlavesShutdownHandler_post example_master signed_empty_request = ([], Raised TypeError)"
  by (simp add: SlaveShutdownHandler_post_def SlaveShutdownHandler_post_body_def
      SlavesShutdownHandler_post_def SlavesShutdownHandler_post_body_def dict_get_def
      authenticated_def example_master_def signed_request_def signed_empty_request_def
      ascii_int_eval)

lemma shutdown_bodies_no_envelope:
  "\<not> is_envelope (snd (SlaveShutdownHandler_post_body slave_id m req))"
  "\<not> is_envelope (snd (SlavesShutdownHandler_post_body m req))"
  by (auto simp: SlaveShutdownHandler_post_body_def SlavesShutdownHandler_post_body_def Let_def
      split: sum.splits)

lemma slave_put_envelope_defaults:
  "snd (SlaveHandler_put_body slave_id m req) = WroteStatus r su c \<Longrightarrow> su = None \<and> c = None"
  by (auto simp: SlaveHandler_put_body_def split: sum.splits)

text \<open>
  C7, amended: with a valid credential, build creation and build update pass the decoded
  body to the master and, when the master returns a success flag and a response, write
  the status envelope with them under status 202 (creation) or 200 (update) on success
  and 400 otherwise; when the master raises, the exception leaves the handler. The
  slave state update writes the envelope of the slave with no success flag and no
  status of its own when its collaborator calls return, and the exception of the slave
  lookup leaves the handler. The shutdown of one slave calls
  \<open>set_shutdown_mode_on_slaves\<close> with that id, the shutdown with a true
  \<open>shutdown_all\<close> calls it with every registered id; both end without output when
  the call returns and with its exception otherwise, and no shutdown writes an envelope.
\<close>

theorem build_endpoints_write_status_envelope:
  assumes "credential_valid m req"
  shows "BuildsHandler_post m req =
           ([HandleRequestForNewBuild (decoded_body req)],
            (case handle_request_for_new_build m (decoded_body req) of
               Inl x \<Rightarrow> Raised x
             | Inr (success, response) \<Rightarrow>
                 WroteStatus (Some response) (Some success)
                   (Some (if success then 202 else 400))))
       \<and> BuildHandler_put m req build_id =
           ([HandleRequestToUpdateBuild build_id (decoded_body req)],
            (case handle_request_to_update_build m build_id (decoded_body req) of
               Inl x \<Rightarrow> Raised x
             | Inr (success, response) \<Rightarrow>
                 WroteStatus (Some response) (Some success)
                   (Some (if success then 200 else 400))))
       \<and> (\<forall>st i sl sl'.
             dict_get2 (decoded_body req) ''slave'' ''state'' = Inr st
             \<and> py_int m slave_id = Inr i \<and> get_slave_by_id m i = Inr sl
             \<and> handle_slave_state_update m sl st = Inr sl'
             \<and> update_slave_last_heartbeat_time m sl' = Inr () \<longrightarrow>
             snd (SlaveHandler_put m req slave_id) =
               WroteStatus (Some (JObj [(''slave'', slave_api_representation sl')])) None None)
       \<and> (\<forall>st i x.
             dict_get2 (decoded_body req) ''slave'' ''state'' = Inr st
             \<and> py_int m slave_id = Inr i \<and> get_slave_by_id m i = Inl x \<longrightarrow>
             SlaveHandler_put m req slave_id = ([GetSlaveById i], Raised x))
       \<and> (\<forall>r su c. snd (SlaveHandler_put m req slave_id) = WroteStatus r su c \<longrightarrow>
             su = None \<and> c = None)
       \<and> (\<forall>i. py_int m slave_id = Inr i \<longrightarrow>
             SlaveShutdownHandler_post m req slave_id =
               ([SetShutdownModeOnSlaves [i]],
                (case set_shutdown_mode_on_slaves m [i] of
                   Inl x \<Rightarrow> Raised x
                 | Inr u \<Rightarrow> NoOutput)))
       \<and> (truthy (dict_get (decoded_body req) ''shutdown_all'') \<longrightarrow>
             SlavesShutdownHandler_post m req =
               ([GetAllSlavesById, SetShutdownModeOnSlaves (map fst (all_slaves_by_id m))],
                (case set_shutdown_mode_on_slaves m (map fst (all_slaves_by_id m)) of
                   Inl x \<Rightarrow> Raised x
                 | Inr u \<Rightarrow> NoOutput)))
       \<and> \<not> is_envelope (snd (SlaveShutdownHandler_post m req slave_id))
       \<and> \<not> is_envelope (snd (SlavesShutdownHandler_post m req))"
proof -
  have builds: "BuildsHandler_post m req =
           ([HandleRequestForNewBuild (decoded_body req)],
            (case handle_request_for_new_build m (decoded_body req) of
               Inl x \<Rightarrow> Raised x
             | Inr (success, response) \<Rightarrow>
                 WroteStatus (Some response) (Some success)
                   (Some (if success then 202 else 400))))"
    using assms
    by (simp add: BuildsHandler_post_def BuildsHandler_post_body_def authenticated_def Let_def
        http_ACCEPTED_def http_BAD_REQUEST_def split: sum.splits prod.splits)
  have build: "BuildHandler_put m req build_id =
           ([HandleRequestToUpdateBuild build_id (decoded_body req)],
            (case handle_request_to_update_build m build_id (decoded_body req) of
               Inl x \<Rightarrow> Raised x
             | Inr (success, response) \<Rightarrow>
                 WroteStatus (Some response) (Some success)
                   (Some (if success then 200 else 400))))"
    using assms
    by (simp add: BuildHandler_put_def BuildHandler_put_body_def authenticated_def Let_def
        http_OK_def http_BAD_REQUEST_def split: sum.splits prod.splits)
  have put: "SlaveHandler_put m req slave_id = SlaveHandler_put_body slave_id m req"
    using assms by (simp add: SlaveHandler_put_def authenticated_def)
  have put_ok: "\<forall>st i sl sl'.
             dict_get2 (decoded_body req) ''slave'' ''state'' = Inr st
             \<and> py_int m slave_id = Inr i \<and> get_slave_by_id m i = Inr sl
             \<and> handle_slave_state_update m sl st = Inr sl'
             \<and> update_slave_last_heartbeat_time m sl' = Inr () \<longrightarrow>
             snd (SlaveHandler_put m req slave_id) =
               WroteStatus (Some (JObj [(''slave'', slave_api_representation sl')])) None None"
    unfolding put by (simp add: SlaveHandler_put_body_def)
  have put_raise: "\<forall>st i x.
             dict_get2 (decoded_body req) ''slave'' ''state'' = Inr st
             \<and> py_int m slave_id = Inr i \<and> get_slave_by_id m i = Inl x \<longrightarrow>
             SlaveHandler_put m req slave_id = ([GetSlaveById i], Raised x)"
    unfolding put by (simp add: SlaveHandler_put_body_def)
  have put_defaults: "\<forall>r su c. snd (SlaveHandler_put m req slave_id) = WroteStatus r su c \<longrightarrow>
             su = None \<and> c = None"
    unfolding put using slave_put_envelope_defaults by blast
  have one: "\<forall>i. py_int m slave_id = Inr i \<longrightarrow>
             SlaveShutdownHandler_post m req slave_id =
               ([SetShutdownModeOnSlaves [i]],
                (case set_shutdown_mode_on_slaves m [i] of
                   Inl x \<Rightarrow> Raised x
                 | Inr u \<Rightarrow> NoOutput))"
    using assms
    by (simp add: SlaveShutdownHandler_post_def SlaveShutdownHandler_post_body_def
        authenticated_def split: sum.splits)
  have all: "truthy (dict_get (decoded_body req) ''shutdown_all'') \<longrightarrow>
             SlavesShutdownHandler_post m req =
               ([GetAllSlavesById, SetShutdownModeOnSlaves (map fst (all_slaves_by_id m))],
                (case set_shutdown_mode_on_slaves m (map fst (all_slaves_by_id m)) of
                   Inl x \<Rightarrow> Raised x
                 | Inr u \<Rightarrow> NoOutput))"
    using assms
    by (simp add: SlavesShutdownHandler_post_def SlavesShutdownHandler_post_body_def
        authenticated_def Let_def split: sum.splits)
  have none: "\<not> is_envelope (snd (SlaveShutdownHandler_post m req slave_id))"
    "\<not> is_envelope (snd (SlavesShutdownHandler_post m req))"
    using assms shutdown_bodies_no_envelope
    by (simp_all add: SlaveShutdownHandler_post_def SlavesShutdownHandler_post_def
        authenticated_def)
  from builds build put_ok put_raise put_defaults one all none show ?thesis
    by (simp only: simp_thms)
qed

theorem build_endpoints_write_status_envelope_witness:
  "BuildsHandler_post example_master signed_request =
     ([HandleRequestForNewBuild [(''type'', JStr ''git'')]],
      WroteStatus (Some (JObj [(''type'', JStr ''git'')])) (Some True) (Some 202))
   \<and> BuildsHandler_post example_master signed_empty_request =
     ([HandleRequestForNewBuild []], WroteStatus (Some (JObj [])) (Some False) (Some 400))
   \<and> SlaveShutdownHandler_post example_master signed_request ''7'' =
     ([SetShutdownModeOnSlaves [7]], NoOutput)"
proof -
  have signed: "credential_valid example_master signed_request"
    "credential_valid example_master signed_empty_request"
    by (simp_all add: example_master_def signed_request_def signed_empty_request_def)
  show ?thesis
    using build_endpoints_write_status_envelope [OF signed(1), of "''1''" "''7''"]
      build_endpoints_write_status_envelope [OF signed(2), of "''1''" "''7''"]
      example_int(5)
    by (simp add: example_master_def signed_request_def signed_empty_request_def)
qed

end
